theory Spec2Isabelle
  imports Main
begin

section \<open>Exceptions, events and the world\<close>

text \<open>
  The program is \<^verbatim>\<open>src/app.py\<close>: a Flask application that records speech, translates
  the recognised text with ArgosTranslate and speaks the translation through a chain of
  text-to-speech backends. The external libraries are parameters of the model (the record
  \<open>env\<close>); every call that can raise returns a sum, \<open>Inl\<close> carrying the exception.
  A Python string is modelled by its UTF-8 encoding, one \<open>char\<close> per byte.
\<close>

datatype exn = KeyError string | FileExistsError | Exception string

text \<open>
  \<^verbatim>\<open>repr(s)\<close> of a string: double quotes when the string holds an apostrophe and no
  double quote, single quotes otherwise; the backslash, the chosen quote, newline,
  carriage return, tab and the other ASCII control characters are escaped. Code points
  beyond ASCII are taken to be printable and are kept.
\<close>

definition hex_digit :: "nat \<Rightarrow> char" where
  "hex_digit n = (if n < 10 then char_of (48 + n) else char_of (87 + n))"

definition repr_char :: "char \<Rightarrow> char \<Rightarrow> string" where
  "repr_char quote c =
     (if c = CHR 0x5C then [CHR 0x5C, CHR 0x5C]
      else if c = quote then [CHR 0x5C, quote]
      else if c = CHR 0x09 then [CHR 0x5C, CHR ''t'']
      else if c = CHR 0x0A then [CHR 0x5C, CHR ''n'']
      else if c = CHR 0x0D then [CHR 0x5C, CHR ''r'']
      else if (of_char c :: nat) < 32 \<or> (of_char c :: nat) = 127 then
        [CHR 0x5C, CHR ''x'', hex_digit ((of_char c :: nat) div 16),
         hex_digit ((of_char c :: nat) mod 16)]
      else [c])"

definition repr :: "string \<Rightarrow> string" where
  "repr s =
     (let quote = (if CHR 0x27 \<in> set s \<and> CHR 0x22 \<notin> set s then CHR 0x22 else CHR 0x27)
      in [quote] @ concat (map (repr_char quote) s) @ [quote])"

text \<open>
  \<^verbatim>\<open>str(e)\<close>: a \<^verbatim>\<open>KeyError\<close> prints the repr of its key; the \<^verbatim>\<open>FileExistsError\<close> of
  \<^verbatim>\<open>tempfile\<close> carries the error number of \<^verbatim>\<open>EEXIST\<close>.
\<close>

fun str_exn :: "exn \<Rightarrow> string" where
  "str_exn (KeyError k) = repr k"
| "str_exn FileExistsError = ''[Errno 17] No usable temporary file name found''"
| "str_exn (Exception m) = m"

datatype backend = SAPI | ESpeak | Pyttsx3

text \<open>
  What a run leaves behind for an observer: the calls into the external capabilities and
  the log lines and console output that mark the start of an attempt.
\<close>

datatype event =
    ArgosTranslate string string string
  | LogTwoStep
  | Speaking string string
  | Trying backend
  | Invoke backend
  | Play string
  | Print string string
  | LoadModel string
  | OpenStream

record world =
  files :: "string \<rightharpoonup> nat"
  trace :: "event list"

definition emit :: "event \<Rightarrow> world \<Rightarrow> world" where
  "emit e w = w\<lparr>trace := trace w @ [e]\<rparr>"

text \<open>What a backend does to its output file before it returns or raises.\<close>

datatype effect = Untouched | Written nat | Removed

datatype espeak_run = RunRaises exn | Completed int string effect

record env =
  lang_dict :: "string list"
  argos :: "string \<Rightarrow> string \<Rightarrow> string \<Rightarrow> exn + string"
  temp_names :: "string \<Rightarrow> string list"
  sapi :: "string \<Rightarrow> string \<Rightarrow> effect \<times> exn option"
  espeak :: "string \<Rightarrow> string \<Rightarrow> espeak_run"
  pyttsx3 :: "string \<Rightarrow> string \<Rightarrow> effect \<times> exn option"
  mixer :: "string \<Rightarrow> exn option"
  stdout_error :: "string \<Rightarrow> exn option"
  unlink_error :: "string \<Rightarrow> exn option"
  model_exists :: "string \<Rightarrow> bool"
  vosk_model :: "string \<Rightarrow> exn option"
  stream_error :: "exn option"
  audio :: "(bool \<times> string option) list"

text \<open>
  \<^item> \<open>lang_dict\<close>: the keys of the module-level \<^verbatim>\<open>lang_dict\<close> (installed language codes);
  \<^item> \<open>argos a b t\<close>: \<^verbatim>\<open>lang_dict[a].get_translation(lang_dict[b]).translate(t)\<close>;
  \<^item> \<open>temp_names suffix\<close>: the names \<^verbatim>\<open>tempfile\<close> tries, in order;
  \<^item> \<open>sapi text lang\<close>, \<open>pyttsx3 text lang\<close>: the engine's effect on the output file and
    the exception it raises, if any; \<open>espeak voice text\<close>: \<^verbatim>\<open>subprocess.run\<close> raises,
    or completes with a return code, stderr and an effect on the output file;
  \<^item> \<open>mixer path\<close>: the exception of the pygame playback, if any;
  \<^item> \<open>stdout_error s\<close>: the exception of writing the string \<open>s\<close> to standard output, if
    any (an encoding that cannot take the string, a closed stream);
  \<^item> \<open>unlink_error path\<close>: the exception of \<^verbatim>\<open>os.unlink(path)\<close>, if any;
  \<^item> \<open>model_exists\<close>, \<open>vosk_model\<close>: \<^verbatim>\<open>os.path.exists(model_path)\<close> and the exception of
    \<^verbatim>\<open>vosk.Model(model_path)\<close>, if any;
  \<^item> \<open>stream_error\<close>: the exception of opening \<^verbatim>\<open>sd.RawInputStream\<close>, if any;
  \<^item> \<open>audio\<close>: the queued chunks, each with the recogniser's answer to
    \<^verbatim>\<open>AcceptWaveform\<close> and the \<^verbatim>\<open>"text"\<close> entry of its result, if present.
  Logging is not modelled beyond the marker events above; the \<^verbatim>\<open>logging\<close> module
  handles the errors of its handlers itself, so a log call does not raise.
\<close>

section \<open>translate_text (app.py, lines 138-186)\<close>

text \<open>\<^verbatim>\<open>lang_dict[k]\<close>: the language object is identified with its code.\<close>

definition lookup_lang :: "env \<Rightarrow> string \<Rightarrow> exn + string" where
  "lookup_lang env k = (if k \<in> set (lang_dict env) then Inr k else Inl (KeyError k))"

text \<open>
  The pattern \<^verbatim>\<open>tr = lang_dict[a].get_translation(lang_dict[b]); r = tr.translate(t)\<close>
  of lines 157-158, 169-170 and 174-175: both subscripts are evaluated before the
  capability is called.
\<close>

definition run_translation ::
  "env \<Rightarrow> string \<Rightarrow> string \<Rightarrow> string \<Rightarrow> world \<Rightarrow> (exn + string) \<times> world" where
  "run_translation env a b t w =
     (case lookup_lang env a of
        Inl e \<Rightarrow> (Inl e, w)
      | Inr la \<Rightarrow>
          (case lookup_lang env b of
             Inl e \<Rightarrow> (Inl e, w)
           | Inr lb \<Rightarrow> (argos env la lb t, emit (ArgosTranslate la lb t) w)))"

text \<open>The body of the inner \<^verbatim>\<open>try\<close> of lines 166-177.\<close>

definition two_step ::
  "env \<Rightarrow> string \<Rightarrow> string \<Rightarrow> string \<Rightarrow> world \<Rightarrow> (exn + string) \<times> world" where
  "two_step env text source target w =
     (case run_translation env source ''en'' text (emit LogTwoStep w) of
        (Inl e, w1) \<Rightarrow> (Inl e, w1)
      | (Inr english_text, w1) \<Rightarrow> run_translation env ''en'' target english_text w1)"

text \<open>The body of the outer \<^verbatim>\<open>try\<close> of lines 146-182.\<close>

definition translate_body ::
  "env \<Rightarrow> string \<Rightarrow> string \<Rightarrow> string \<Rightarrow> world \<Rightarrow> (exn + string) \<times> world" where
  "translate_body env text source target w =
     (if source \<notin> set (lang_dict env) then
        (Inr (''[Translation failed: '' @ source @ '' language not installed]''), w)
      else if target \<notin> set (lang_dict env) then
        (Inr (''[Translation failed: '' @ target @ '' language not installed]''), w)
      else
        (case run_translation env source target text w of
           (Inr result, w1) \<Rightarrow> (Inr result, w1)
         | (Inl direct_error, w1) \<Rightarrow>
             (if source \<noteq> ''en'' \<and> target \<noteq> ''en'' then
                (case two_step env text source target w1 of
                   (Inr result, w2) \<Rightarrow> (Inr result, w2)
                 | (Inl two_step_error, w2) \<Rightarrow> (Inl direct_error, w2))
              else (Inl direct_error, w1))))"

definition translate_text ::
  "env \<Rightarrow> string \<Rightarrow> string \<Rightarrow> string \<Rightarrow> world \<Rightarrow> (exn + string) \<times> world" where
  "translate_text env text source target w =
     (if text = [] then (Inr ''No text recognized'', w)
      else if source = target then (Inr text, w)
      else
        (case translate_body env text source target w of
           (Inr result, w1) \<Rightarrow> (Inr result, w1)
         | (Inl e, w1) \<Rightarrow> (Inr (''[Translation Failed: '' @ str_exn e @ '']''), w1)))"

section \<open>speak_text and ms_speak (app.py, lines 188-397)\<close>

text \<open>
  \<^verbatim>\<open>tempfile.NamedTemporaryFile(delete=False, suffix=...)\<close> followed by \<^verbatim>\<open>close()\<close>:
  the first candidate name that does not exist yet is created, empty.
\<close>

definition NamedTemporaryFile :: "env \<Rightarrow> string \<Rightarrow> world \<Rightarrow> (exn + string) \<times> world" where
  "NamedTemporaryFile env suffix w =
     (case find (\<lambda>p. files w p = None) (temp_names env suffix) of
        None \<Rightarrow> (Inl FileExistsError, w)
      | Some p \<Rightarrow> (Inr p, w\<lparr>files := (files w)(p \<mapsto> 0)\<rparr>))"

definition apply_effect :: "effect \<Rightarrow> string \<Rightarrow> world \<Rightarrow> world" where
  "apply_effect eff p w =
     (case eff of
        Untouched \<Rightarrow> w
      | Written n \<Rightarrow> w\<lparr>files := (files w)(p \<mapsto> n)\<rparr>
      | Removed \<Rightarrow> w\<lparr>files := (files w)(p := None)\<rparr>)"

text \<open>\<^verbatim>\<open>os.path.exists(f) and os.path.getsize(f) > 1000\<close> (lines 262, 292, 391).\<close>

definition exists_with_content :: "world \<Rightarrow> string \<Rightarrow> bool" where
  "exists_with_content w f = (case files w f of None \<Rightarrow> False | Some n \<Rightarrow> 1000 < n)"

text \<open>\<^verbatim>\<open>os.unlink(p)\<close>: the exception raised, if any; the file is removed otherwise.\<close>

definition os_unlink :: "env \<Rightarrow> string \<Rightarrow> world \<Rightarrow> exn option \<times> world" where
  "os_unlink env p w =
     (case unlink_error env p of
        Some e \<Rightarrow> (Some e, w)
      | None \<Rightarrow>
          (case files w p of
             None \<Rightarrow> (Some (Exception ''No such file or directory''), w)
           | Some n \<Rightarrow> (None, w\<lparr>files := (files w)(p := None)\<rparr>)))"

text \<open>
  \<^verbatim>\<open>ms_speak\<close> (lines 332-397): the whole body is inside \<^verbatim>\<open>try\<close>, and every exception
  becomes the result \<^verbatim>\<open>False\<close>.
\<close>

definition ms_speak :: "env \<Rightarrow> string \<Rightarrow> string \<Rightarrow> string \<Rightarrow> world \<Rightarrow> bool \<times> world" where
  "ms_speak env text lang output_file w =
     (case sapi env text lang of
        (eff, Some e) \<Rightarrow> (False, apply_effect eff output_file (emit (Invoke SAPI) w))
      | (eff, None) \<Rightarrow>
          (let w1 = apply_effect eff output_file (emit (Invoke SAPI) w)
           in (exists_with_content w1 output_file, w1)))"

text \<open>Lines 208-219.\<close>

definition sapi_block :: "env \<Rightarrow> string \<Rightarrow> string \<Rightarrow> string \<Rightarrow> world \<Rightarrow> bool \<times> world" where
  "sapi_block env text lang temp_filename w =
     ms_speak env text lang temp_filename (emit (Trying SAPI) w)"

text \<open>\<^verbatim>\<open>espeak_voice_map.get(lang, "en")\<close> (lines 234-243).\<close>

definition espeak_voice :: "string \<Rightarrow> string" where
  "espeak_voice lang =
     (case map_of [(''en'', ''en''), (''hi'', ''hi''), (''es'', ''es''), (''de'', ''de''),
                   (''ja'', ''en+f5''), (''zh'', ''en+f5'')] lang of
        None \<Rightarrow> ''en''
      | Some v \<Rightarrow> v)"

text \<open>
  Lines 222-267. The text file is written before eSpeak runs and unlinked at line 255,
  after \<^verbatim>\<open>subprocess.run\<close> has returned; the \<^verbatim>\<open>except\<close> of line 266 only logs.
  The file is written with \<^verbatim>\<open>encoding='utf-8'\<close>, so its size is the length of the
  UTF-8 encoding of the text.
\<close>

definition espeak_block :: "env \<Rightarrow> string \<Rightarrow> string \<Rightarrow> string \<Rightarrow> world \<Rightarrow> bool \<times> world" where
  "espeak_block env text lang temp_filename w =
     (case NamedTemporaryFile env [] (emit (Trying ESpeak) w) of
        (Inl e, w1) \<Rightarrow> (False, w1)
      | (Inr text_path, w1) \<Rightarrow>
          (let w2 = emit (Invoke ESpeak) (w1\<lparr>files := (files w1)(text_path \<mapsto> length text)\<rparr>)
           in case espeak env (espeak_voice lang) text of
                RunRaises e \<Rightarrow> (False, w2)
              | Completed returncode stderr eff \<Rightarrow>
                  (case os_unlink env text_path (apply_effect eff temp_filename w2) of
                     (Some e, w3) \<Rightarrow> (False, w3)
                   | (None, w3) \<Rightarrow>
                       (if returncode \<noteq> 0 then (False, w3)
                        else (exists_with_content w3 temp_filename, w3)))))"

text \<open>Lines 270-296.\<close>

definition pyttsx3_block :: "env \<Rightarrow> string \<Rightarrow> string \<Rightarrow> string \<Rightarrow> world \<Rightarrow> bool \<times> world" where
  "pyttsx3_block env text lang temp_filename w =
     (case pyttsx3 env text lang of
        (eff, Some e) \<Rightarrow>
          (False, apply_effect eff temp_filename (emit (Invoke Pyttsx3) (emit (Trying Pyttsx3) w)))
      | (eff, None) \<Rightarrow>
          (let w1 = apply_effect eff temp_filename (emit (Invoke Pyttsx3) (emit (Trying Pyttsx3) w))
           in (exists_with_content w1 temp_filename, w1)))"

text \<open>
  The three \<^verbatim>\<open>if not tts_success:\<close> blocks of lines 205-296, \<^verbatim>\<open>tts_success\<close> starting
  as \<^verbatim>\<open>False\<close>.
\<close>

definition tts_chain :: "env \<Rightarrow> string \<Rightarrow> string \<Rightarrow> string \<Rightarrow> world \<Rightarrow> bool \<times> world" where
  "tts_chain env text lang temp_filename w =
     (case sapi_block env text lang temp_filename w of
        (s1, w1) \<Rightarrow>
          (case (if \<not> s1 then espeak_block env text lang temp_filename w1 else (s1, w1)) of
             (s2, w2) \<Rightarrow>
               (if \<not> s2 then pyttsx3_block env text lang temp_filename w2 else (s2, w2))))"

text \<open>Lines 299-316: playback, synchronous; an exception resets \<^verbatim>\<open>tts_success\<close>.\<close>

definition playback :: "env \<Rightarrow> string \<Rightarrow> world \<Rightarrow> bool \<times> world" where
  "playback env temp_filename w =
     (case mixer env temp_filename of
        Some e \<Rightarrow> (False, emit (Play temp_filename) w)
      | None \<Rightarrow> (True, emit (Play temp_filename) w))"

text \<open>Lines 318-323: the exception of \<^verbatim>\<open>os.unlink\<close> is logged and dropped.\<close>

definition cleanup :: "env \<Rightarrow> string \<Rightarrow> world \<Rightarrow> world" where
  "cleanup env temp_filename w =
     (if files w temp_filename \<noteq> None then snd (os_unlink env temp_filename w) else w)"

text \<open>
  Line 327: \<^verbatim>\<open>print(f"\n===> [SPEECH ({lang})]: {text}\n")\<close>. The string and the
  newline that \<^verbatim>\<open>print\<close> appends are written to standard output; the write can raise.
\<close>

definition print_speech :: "env \<Rightarrow> string \<Rightarrow> string \<Rightarrow> world \<Rightarrow> exn option \<times> world" where
  "print_speech env lang text w =
     (case stdout_error env
             ([CHR 0x0A] @ ''===> [SPEECH ('' @ lang @ '')]: '' @ text @ [CHR 0x0A, CHR 0x0A]) of
        Some e \<Rightarrow> (Some e, w)
      | None \<Rightarrow> (None, emit (Print lang text) w))"

text \<open>
  \<^verbatim>\<open>speak_text\<close> returns \<^verbatim>\<open>None\<close> for an empty text and \<^verbatim>\<open>tts_success\<close> otherwise; the
  creation of the wav file at line 200 and the \<^verbatim>\<open>print\<close> of line 327 are outside every
  \<^verbatim>\<open>try\<close>.
\<close>

definition speak_text :: "env \<Rightarrow> string \<Rightarrow> string \<Rightarrow> world \<Rightarrow> (exn + bool option) \<times> world" where
  "speak_text env text lang w =
     (if text = [] then (Inr None, w)
      else
        (case NamedTemporaryFile env ''.wav'' (emit (Speaking lang text) w) of
           (Inl e, w1) \<Rightarrow> (Inl e, w1)
         | (Inr temp_filename, w1) \<Rightarrow>
             (case tts_chain env text lang temp_filename w1 of
                (s3, w2) \<Rightarrow>
                  (case (if s3 then playback env temp_filename w2 else (s3, w2)) of
                     (tts_success, w3) \<Rightarrow>
                       (let w4 = cleanup env temp_filename w3
                        in if \<not> tts_success then
                             (case print_speech env lang text w4 of
                                (Some e, w5) \<Rightarrow> (Inl e, w5)
                              | (None, w5) \<Rightarrow> (Inr (Some tts_success), w5))
                           else (Inr (Some tts_success), w4))))))"

section \<open>The /translate route (app.py, lines 403-480)\<close>

definition LANGUAGES :: "(string \<times> string) list" where
  "LANGUAGES =
     [(''English'', ''en''), (''Hindi'', ''hi''), (''Spanish'', ''es''),
      (''German'', ''de''), (''Japanese'', ''ja''), (''Chinese'', ''zh'')]"

definition MODEL_PATHS :: "(string \<times> string) list" where
  "MODEL_PATHS =
     [(''en'', ''models/vosk-model-small-en-us-0.15''),
      (''hi'', ''models/vosk-model-small-hi-0.22''),
      (''es'', ''models/vosk-model-small-es-0.42''),
      (''de'', ''models/vosk-model-de-0.21''),
      (''ja'', ''models/vosk-model-small-ja-0.22''),
      (''zh'', ''models/vosk-model-small-cn-0.22'')]"

text \<open>\<^verbatim>\<open>d[k]\<close> on a dictionary with string keys.\<close>

definition subscript :: "(string \<times> 'a) list \<Rightarrow> string \<Rightarrow> exn + 'a" where
  "subscript d k = (case map_of d k of None \<Rightarrow> Inl (KeyError k) | Some v \<Rightarrow> Inr v)"

text \<open>\<^verbatim>\<open>sep.join(xs)\<close>.\<close>

fun join :: "string \<Rightarrow> string list \<Rightarrow> string" where
  "join sep [] = []"
| "join sep [x] = x"
| "join sep (x # y # ys) = x @ sep @ join sep (y # ys)"

text \<open>The JSON object of the response; an absent key is \<open>None\<close>.\<close>

record response =
  error :: "string option"
  recognized :: "string option"
  translated :: "string option"
  can_translate :: "bool option"
  missing_models :: "string list option"

definition no_response :: response where
  "no_response =
     \<lparr>error = None, recognized = None, translated = None, can_translate = None,
      missing_models = None\<rparr>"

text \<open>
  The loop of \<^verbatim>\<open>recognize_speech\<close> (lines 130-136): chunks are taken from the queue
  until the recogniser accepts one; \<^verbatim>\<open>result.get("text", "")\<close> is returned. When the
  queue runs dry \<^verbatim>\<open>q.get()\<close> blocks for ever: the loop does not return (\<open>None\<close>).
\<close>

fun listen :: "(bool \<times> string option) list \<Rightarrow> string option" where
  "listen [] = None"
| "listen ((accepted, result) # rest) =
     (if accepted then Some (case result of None \<Rightarrow> [] | Some t \<Rightarrow> t) else listen rest)"

definition recognize_speech :: "env \<Rightarrow> world \<Rightarrow> ((exn + string) \<times> world) option" where
  "recognize_speech env w =
     (case stream_error env of
        Some e \<Rightarrow> Some (Inl e, emit OpenStream w)
      | None \<Rightarrow>
          (case listen (audio env) of
             None \<Rightarrow> None
           | Some recognized_text \<Rightarrow> Some (Inr recognized_text, emit OpenStream w)))"

text \<open>Lines 461-475.\<close>

definition missing_response :: "env \<Rightarrow> string \<Rightarrow> string \<Rightarrow> string \<Rightarrow> string \<Rightarrow> string \<Rightarrow> response" where
  "missing_response env source source_code target target_code recognized_text =
     (let missing =
            (if source_code \<notin> set (lang_dict env) then [source @ '' ('' @ source_code @ '')''] else [])
          @ (if target_code \<notin> set (lang_dict env) then [target @ '' ('' @ target_code @ '')''] else [])
      in \<lparr>error = Some (''Missing translation models for: '' @ join '', '' missing),
          recognized = Some recognized_text, translated = None,
          can_translate = Some False, missing_models = Some missing\<rparr>)"

text \<open>Lines 439-460: the inner \<^verbatim>\<open>try\<close> around translation and speech.\<close>

definition translate_and_speak ::
  "env \<Rightarrow> string \<Rightarrow> string \<Rightarrow> string \<Rightarrow> world \<Rightarrow> response \<times> world" where
  "translate_and_speak env recognized_text source_code target_code w =
     (case translate_text env recognized_text source_code target_code w of
        (Inl e, w1) \<Rightarrow>
          (no_response\<lparr>error := Some (''Translation failed: '' @ str_exn e),
             recognized := Some recognized_text, can_translate := Some False\<rparr>, w1)
      | (Inr translated_text, w1) \<Rightarrow>
          (case speak_text env translated_text target_code w1 of
             (Inl e, w2) \<Rightarrow>
               (no_response\<lparr>error := Some (''Translation failed: '' @ str_exn e),
                  recognized := Some recognized_text, can_translate := Some False\<rparr>, w2)
           | (Inr r, w2) \<Rightarrow>
               (no_response\<lparr>recognized := Some recognized_text,
                  translated := Some translated_text\<rparr>, w2)))"

text \<open>
  Lines 406-475, the body of the outer \<^verbatim>\<open>try\<close>. The request is the JSON object
  \<open>data\<close>; \<open>None\<close> is a request whose capture never ends.
  Building the recogniser from a loaded model (line 431) is taken not to raise.
\<close>

definition route_body ::
  "env \<Rightarrow> (string \<times> string) list \<Rightarrow> world \<Rightarrow> ((exn + response) \<times> world) option" where
  "route_body env data w =
     (case subscript data ''source'' of
        Inl e \<Rightarrow> Some (Inl e, w)
      | Inr source \<Rightarrow>
     (case subscript data ''target'' of
        Inl e \<Rightarrow> Some (Inl e, w)
      | Inr target \<Rightarrow>
     (case subscript LANGUAGES source of
        Inl e \<Rightarrow> Some (Inl e, w)
      | Inr source_code \<Rightarrow>
     (case subscript LANGUAGES target of
        Inl e \<Rightarrow> Some (Inl e, w)
      | Inr target_code \<Rightarrow>
     (case subscript MODEL_PATHS source_code of
        Inl e \<Rightarrow> Some (Inl e, w)
      | Inr model_path \<Rightarrow>
          (if \<not> model_exists env model_path then
             Some (Inr (no_response\<lparr>error :=
                     Some (''Model for '' @ source @ '' not found at '' @ model_path @ ''!'')\<rparr>), w)
           else
             (case vosk_model env model_path of
                Some e \<Rightarrow>
                  Some (Inr (no_response\<lparr>error :=
                          Some (''Failed to create model: '' @ str_exn e)\<rparr>),
                        emit (LoadModel model_path) w)
              | None \<Rightarrow>
                  (case recognize_speech env (emit (LoadModel model_path) w) of
                     None \<Rightarrow> None
                   | Some (Inl e, w1) \<Rightarrow> Some (Inl e, w1)
                   | Some (Inr recognized_text, w1) \<Rightarrow>
                       (if source_code \<in> set (lang_dict env) \<and>
                           target_code \<in> set (lang_dict env) then
                          (case translate_and_speak env recognized_text source_code
                                  target_code w1 of
                             (resp, w2) \<Rightarrow> Some (Inr resp, w2))
                        else
                          Some (Inr (missing_response env source source_code target
                                       target_code recognized_text), w1))))))))))"

definition translate :: "env \<Rightarrow> (string \<times> string) list \<Rightarrow> world \<Rightarrow> (response \<times> world) option" where
  "translate env data w =
     (case route_body env data w of
        None \<Rightarrow> None
      | Some (Inl e, w1) \<Rightarrow>
          Some (no_response\<lparr>error := Some (''Error in translation route: '' @ str_exn e)\<rparr>, w1)
      | Some (Inr resp, w1) \<Rightarrow> Some (resp, w1))"

section \<open>Observing a run\<close>

text \<open>The events a run from \<open>w\<close> to \<open>w'\<close> has added.\<close>

definition events_of :: "world \<Rightarrow> world \<Rightarrow> event list" where
  "events_of w w' = drop (length (trace w)) (trace w')"


section \<open>A concrete installation\<close>

text \<open>
  A machine without the Windows speech API, without eSpeak at the configured path and
  without a pyttsx3 driver; translation models exist for Spanish to English and English
  to Hindi only. Standard output takes ASCII only (as under \<^verbatim>\<open>PYTHONIOENCODING=ascii\<close>):
  writing any other character raises \<^verbatim>\<open>UnicodeEncodeError\<close>, whose message is
  abbreviated here (Python adds the positions of the characters).
\<close>

definition ascii_stdout :: "string \<Rightarrow> exn option" where
  "ascii_stdout s =
     (if list_ex (\<lambda>c. 128 \<le> (of_char c :: nat)) s then
        Some (Exception '''ascii' codec can't encode characters: ordinal not in range(128)'')
      else None)"

definition demo_argos :: "string \<Rightarrow> string \<Rightarrow> string \<Rightarrow> exn + string" where
  "demo_argos a b t =
     (if (a, b, t) = (''es'', ''en'', ''hola'') then Inr ''hello''
      else if (a, b, t) = (''en'', ''hi'', ''hello'') then Inr ''namaste''
      else Inl (Exception (''no model '' @ a @ ''-'' @ b)))"

definition demo_env :: env where
  "demo_env =
     \<lparr>lang_dict = [''en'', ''hi'', ''es'', ''de''],
      argos = demo_argos,
      temp_names = (\<lambda>suffix. [''/tmp/tmpa'' @ suffix, ''/tmp/tmpb'' @ suffix]),
      sapi = (\<lambda>text lang. (Untouched, Some (Exception ''No module named win32com''))),
      espeak = (\<lambda>voice text. RunRaises (Exception ''[WinError 2] espeak.exe not found'')),
      pyttsx3 = (\<lambda>text lang. (Untouched, Some (Exception ''no driver''))),
      mixer = (\<lambda>path. None),
      stdout_error = ascii_stdout,
      unlink_error = (\<lambda>path. None),
      model_exists = (\<lambda>path. True),
      vosk_model = (\<lambda>path. None),
      stream_error = None,
      audio = [(False, None), (True, Some ''hello'')]\<rparr>"

definition w0 :: world where
  "w0 = \<lparr>files = Map.empty, trace = []\<rparr>"

text \<open>
  The same machine with a speech API that returns without error after writing a file of
  zero bytes, and with a working eSpeak; and a world in which the wav file of the request
  has just been created.
\<close>

definition zero_byte_env :: env where
  "zero_byte_env =
     demo_env\<lparr>sapi := (\<lambda>text lang. (Written 0, None)),
               espeak := (\<lambda>voice text. Completed 0 [] (Written 5000))\<rparr>"

definition w_wav :: world where
  "w_wav = \<lparr>files = [''/tmp/tmpa.wav'' \<mapsto> 0], trace = []\<rparr>"

text \<open>
  A request from English to Hindi; an installation without the Hindi translation model;
  and an installation with both models whose recogniser hears only silence.
\<close>

definition english_to_hindi :: "(string \<times> string) list" where
  "english_to_hindi = [(''source'', ''English''), (''target'', ''Hindi'')]"

definition hindi_missing_env :: env where
  "hindi_missing_env = demo_env\<lparr>lang_dict := [''en'']\<rparr>"


text \<open>
  The Hindi greeting of six Devanagari code points (U+0928, U+092E, U+0938, U+094D,
  U+0924, U+0947), in UTF-8; and the first machine with an English to Hindi model that
  answers with it.
\<close>

definition namaste :: string where
  "namaste =
     [CHR 0xE0, CHR 0xA4, CHR 0xA8, CHR 0xE0, CHR 0xA4, CHR 0xAE, CHR 0xE0, CHR 0xA4, CHR 0xB8,
      CHR 0xE0, CHR 0xA5, CHR 0x8D, CHR 0xE0, CHR 0xA4, CHR 0xA4, CHR 0xE0, CHR 0xA5, CHR 0x87]"

definition devanagari_env :: env where
  "devanagari_env = demo_env\<lparr>argos := (\<lambda>a b t. Inr namaste)\<rparr>"

section \<open>Properties of translate_text\<close>

lemma two_step_fst:
  "fst (two_step env text source target w) = fst (two_step env text source target w')"
  by (auto simp: two_step_def run_translation_def lookup_lang_def split: sum.splits)

text \<open>
  Claim C3, as the code has it: for an empty text \<^verbatim>\<open>translate_text\<close> returns at once,
  for every source and target language, without touching the world (no translation
  capability is invoked); the string it returns is the placeholder
  \<^verbatim>\<open>"No text recognized"\<close>.
\<close>

theorem translate_text_empty:
  "translate_text env [] source target w = (Inr ''No text recognized'', w)"
  by (simp add: translate_text_def)

text \<open>
  Claim C3 as stated (the empty string is returned for the empty text) fails for
  English to Hindi.
\<close>

theorem translate_text_empty_not_empty:
  "fst (translate_text demo_env [] ''en'' ''hi'' w0) \<noteq> Inr []"
  by (simp add: translate_text_def)

text \<open>
  Claim C8: for a non-empty text and equal source and target languages,
  \<^verbatim>\<open>translate_text\<close> returns the text itself and leaves the world as it was: nothing is
  invoked.
\<close>

theorem translate_text_identity:
  "text \<noteq> [] \<Longrightarrow> translate_text env text source source w = (Inr text, w)"
  by (simp add: translate_text_def)

theorem translate_text_identity_witness:
  "''hello'' \<noteq> [] \<and> translate_text demo_env ''hello'' ''en'' ''en'' w0 = (Inr ''hello'', w0)"
  using translate_text_identity [of "''hello''" demo_env "''en''" w0] by simp

text \<open>
  Claim C4: when the direct attempt fails and the two-step attempt through English is
  either not applicable or fails too, the string returned carries the error of the direct
  attempt.
\<close>

theorem translate_text_reports_direct_error:
  assumes "text \<noteq> []" and "source \<noteq> target"
    and "source \<in> set (lang_dict env)" and "target \<in> set (lang_dict env)"
    and "argos env source target text = Inl direct_error"
    and "source = ''en'' \<or> target = ''en'' \<or>
         fst (two_step env text source target w') = Inl pivot_error"
  shows "fst (translate_text env text source target w) =
           Inr (''[Translation Failed: '' @ str_exn direct_error @ '']'')"
proof -
  let ?w1 = "emit (ArgosTranslate source target text) w"
  have direct: "run_translation env source target text w = (Inl direct_error, ?w1)"
    using assms(3,4,5) by (simp add: run_translation_def lookup_lang_def)
  show ?thesis
  proof (cases "source \<noteq> ''en'' \<and> target \<noteq> ''en''")
    case False
    then show ?thesis
      using assms(1-4) direct by (auto simp add: translate_text_def translate_body_def)
  next
    case True
    with assms(6) have "fst (two_step env text source target w') = Inl pivot_error"
      by simp
    then have "fst (two_step env text source target ?w1) = Inl pivot_error"
      using two_step_fst [of env "text" source target "?w1" "w'"] by simp
    then obtain w2 where "two_step env text source target ?w1 = (Inl pivot_error, w2)"
      by (cases "two_step env text source target ?w1") simp
    then show ?thesis
      using assms(1-4) direct True by (simp add: translate_text_def translate_body_def)
  qed
qed

theorem translate_text_reports_direct_error_witness:
  "fst (two_step demo_env ''hallo'' ''de'' ''hi'' w0) = Inl (Exception ''no model de-en'')
   \<and> fst (translate_text demo_env ''hallo'' ''de'' ''hi'' w0)
       = Inr ''[Translation Failed: no model de-hi]''"
proof -
  have p: "fst (two_step demo_env ''hallo'' ''de'' ''hi'' w0) = Inl (Exception ''no model de-en'')"
    by (simp add: two_step_def run_translation_def lookup_lang_def demo_env_def demo_argos_def)
  have d: "argos demo_env ''de'' ''hi'' ''hallo'' = Inl (Exception ''no model de-hi'')"
    by (simp add: demo_env_def demo_argos_def)
  have l: "''de'' \<in> set (lang_dict demo_env)" "''hi'' \<in> set (lang_dict demo_env)"
    by (simp_all add: demo_env_def)
  show ?thesis
    using translate_text_reports_direct_error [of "''hallo''" "''de''" "''hi''" demo_env
        "Exception ''no model de-hi''" w0 "Exception ''no model de-en''" w0] p d l
    by simp
qed

text \<open>
  Claim C6: the two-step translation through English is attempted (its log line is
  written) exactly when the direct attempt was made and failed and neither language is
  English; it translates the source text to English and the English text to the target
  language, and when both steps succeed the result of the second step is returned.
\<close>

theorem two_step_exactly_after_direct_failure:
  "(LogTwoStep \<in> set (events_of w (snd (translate_text env text source target w)))
      \<longleftrightarrow> text \<noteq> [] \<and> source \<noteq> target
          \<and> source \<in> set (lang_dict env) \<and> target \<in> set (lang_dict env)
          \<and> (\<exists>e. argos env source target text = Inl e)
          \<and> source \<noteq> ''en'' \<and> target \<noteq> ''en'')
   \<and> (text \<noteq> [] \<and> source \<noteq> target
        \<and> source \<in> set (lang_dict env) \<and> target \<in> set (lang_dict env)
        \<and> argos env source target text = Inl e
        \<and> source \<noteq> ''en'' \<and> target \<noteq> ''en'' \<and> ''en'' \<in> set (lang_dict env)
        \<and> argos env source ''en'' text = Inr english_text
        \<and> argos env ''en'' target english_text = Inr result
      \<longrightarrow> fst (translate_text env text source target w) = Inr result
          \<and> events_of w (snd (translate_text env text source target w))
              = [ArgosTranslate source target text, LogTwoStep,
                 ArgosTranslate source ''en'' text, ArgosTranslate ''en'' target english_text])"
proof (intro conjI)
  show "LogTwoStep \<in> set (events_of w (snd (translate_text env text source target w)))
      \<longleftrightarrow> text \<noteq> [] \<and> source \<noteq> target
          \<and> source \<in> set (lang_dict env) \<and> target \<in> set (lang_dict env)
          \<and> (\<exists>e. argos env source target text = Inl e)
          \<and> source \<noteq> ''en'' \<and> target \<noteq> ''en''"
    by (auto simp: translate_text_def translate_body_def two_step_def run_translation_def
        lookup_lang_def emit_def events_of_def split: sum.splits prod.splits)
next
  show "text \<noteq> [] \<and> source \<noteq> target
        \<and> source \<in> set (lang_dict env) \<and> target \<in> set (lang_dict env)
        \<and> argos env source target text = Inl e
        \<and> source \<noteq> ''en'' \<and> target \<noteq> ''en'' \<and> ''en'' \<in> set (lang_dict env)
        \<and> argos env source ''en'' text = Inr english_text
        \<and> argos env ''en'' target english_text = Inr result
      \<longrightarrow> fst (translate_text env text source target w) = Inr result
          \<and> events_of w (snd (translate_text env text source target w))
              = [ArgosTranslate source target text, LogTwoStep,
                 ArgosTranslate source ''en'' text, ArgosTranslate ''en'' target english_text]"
    by (auto simp: translate_text_def translate_body_def two_step_def run_translation_def
        lookup_lang_def emit_def events_of_def split: sum.splits prod.splits)
qed

theorem two_step_exactly_after_direct_failure_witness:
  "LogTwoStep \<in> set (events_of w0 (snd (translate_text demo_env ''hola'' ''es'' ''hi'' w0)))
   \<and> argos demo_env ''es'' ''hi'' ''hola'' = Inl (Exception ''no model es-hi'')
   \<and> argos demo_env ''es'' ''en'' ''hola'' = Inr ''hello''
   \<and> argos demo_env ''en'' ''hi'' ''hello'' = Inr ''namaste''
   \<and> fst (translate_text demo_env ''hola'' ''es'' ''hi'' w0) = Inr ''namaste''
   \<and> events_of w0 (snd (translate_text demo_env ''hola'' ''es'' ''hi'' w0))
       = [ArgosTranslate ''es'' ''hi'' ''hola'', LogTwoStep,
          ArgosTranslate ''es'' ''en'' ''hola'', ArgosTranslate ''en'' ''hi'' ''hello'']"
proof -
  have a: "argos demo_env ''es'' ''hi'' ''hola'' = Inl (Exception ''no model es-hi'')"
    "argos demo_env ''es'' ''en'' ''hola'' = Inr ''hello''"
    "argos demo_env ''en'' ''hi'' ''hello'' = Inr ''namaste''"
    by (simp_all add: demo_env_def demo_argos_def)
  have l: "''es'' \<in> set (lang_dict demo_env)" "''hi'' \<in> set (lang_dict demo_env)"
    "''en'' \<in> set (lang_dict demo_env)"
    by (simp_all add: demo_env_def)
  show ?thesis
    using two_step_exactly_after_direct_failure [of w0 demo_env "''hola''" "''es''" "''hi''"
        "Exception ''no model es-hi''" "''hello''" "''namaste''"] a l
    by simp
qed

text \<open>
  Claim C10: \<^verbatim>\<open>translate_text\<close> always returns a string, never an exception: an
  exception that escapes the body of the outer \<^verbatim>\<open>try\<close> (from the direct or the
  two-step path) is turned into the string \<^verbatim>\<open>"[Translation Failed: ...]"\<close>.
\<close>

theorem translate_text_never_raises:
  "(\<exists>s. fst (translate_text env text source target w) = Inr s)
   \<and> (text \<noteq> [] \<and> source \<noteq> target \<and> fst (translate_body env text source target w) = Inl e
        \<longrightarrow> fst (translate_text env text source target w)
             = Inr (''[Translation Failed: '' @ str_exn e @ '']''))"
  by (auto simp add: translate_text_def split: prod.splits sum.splits)

theorem translate_text_never_raises_witness:
  "fst (translate_body demo_env ''hallo'' ''de'' ''hi'' w0) = Inl (Exception ''no model de-hi'')
   \<and> fst (translate_text demo_env ''hallo'' ''de'' ''hi'' w0)
       = Inr ''[Translation Failed: no model de-hi]''"
proof -
  have b: "fst (translate_body demo_env ''hallo'' ''de'' ''hi'' w0)
             = Inl (Exception ''no model de-hi'')"
    by (simp add: translate_body_def two_step_def run_translation_def lookup_lang_def
        demo_env_def demo_argos_def)
  show ?thesis
    using translate_text_never_raises [of demo_env "''hallo''" "''de''" "''hi''" w0
        "Exception ''no model de-hi''"] b
    by simp
qed

section \<open>Properties of speak_text\<close>

lemma trace_emit [simp]: "trace (emit e w) = trace w @ [e]"
  by (simp add: emit_def)

lemma files_emit [simp]: "files (emit e w) = files w"
  by (simp add: emit_def)

lemma trace_apply_effect [simp]: "trace (apply_effect eff p w) = trace w"
  by (simp add: apply_effect_def split: effect.splits)

lemma trace_os_unlink [simp]: "trace (snd (os_unlink env p w)) = trace w"
  by (simp add: os_unlink_def split: option.splits)

lemma trace_NamedTemporaryFile [simp]: "trace (snd (NamedTemporaryFile env suffix w)) = trace w"
  by (simp add: NamedTemporaryFile_def split: option.splits)

lemma trace_cleanup [simp]: "trace (cleanup env p w) = trace w"
  by (simp add: cleanup_def)

lemma trace_sapi_block:
  "trace (snd (sapi_block env text lang f w)) = trace w @ [Trying SAPI, Invoke SAPI]"
  by (simp add: sapi_block_def ms_speak_def Let_def split: prod.splits option.splits)

lemma trace_pyttsx3_block:
  "trace (snd (pyttsx3_block env text lang f w)) = trace w @ [Trying Pyttsx3, Invoke Pyttsx3]"
  by (simp add: pyttsx3_block_def Let_def split: prod.splits option.splits)

lemma trace_espeak_block:
  "trace (snd (espeak_block env text lang f w)) = trace w @ [Trying ESpeak]
   \<or> trace (snd (espeak_block env text lang f w)) = trace w @ [Trying ESpeak, Invoke ESpeak]"
proof (cases "NamedTemporaryFile env [] (emit (Trying ESpeak) w)")
  case (Pair r w1)
  then have t: "trace w1 = trace w @ [Trying ESpeak]"
    using trace_NamedTemporaryFile [of env "[]" "emit (Trying ESpeak) w"] by simp
  show ?thesis
  proof (cases r)
    case (Inl e)
    with Pair t show ?thesis by (simp add: espeak_block_def)
  next
    case (Inr text_path)
    have u: "\<And>x w3 w'. os_unlink env text_path w' = (x, w3) \<Longrightarrow> trace w3 = trace w'"
      using trace_os_unlink [of env text_path] by (metis snd_conv)
    from Pair Inr t show ?thesis
      by (auto simp add: espeak_block_def Let_def dest!: u split: espeak_run.splits prod.splits option.splits)
  qed
qed

lemma sapi_block_success:
  "fst (sapi_block env text lang f w) \<Longrightarrow> exists_with_content (snd (sapi_block env text lang f w)) f"
  by (auto simp add: sapi_block_def ms_speak_def Let_def split: prod.splits option.splits)

lemma espeak_block_success:
  "fst (espeak_block env text lang f w) \<Longrightarrow> exists_with_content (snd (espeak_block env text lang f w)) f"
  by (auto simp add: espeak_block_def Let_def split: prod.splits option.splits sum.splits espeak_run.splits if_splits)

lemma pyttsx3_block_success:
  "fst (pyttsx3_block env text lang f w) \<Longrightarrow> exists_with_content (snd (pyttsx3_block env text lang f w)) f"
  by (auto simp add: pyttsx3_block_def Let_def split: prod.splits option.splits)

lemma tts_chain_unfold:
  "tts_chain env text lang f w =
     (if fst (sapi_block env text lang f w) then sapi_block env text lang f w
      else if fst (espeak_block env text lang f (snd (sapi_block env text lang f w)))
      then espeak_block env text lang f (snd (sapi_block env text lang f w))
      else pyttsx3_block env text lang f
             (snd (espeak_block env text lang f (snd (sapi_block env text lang f w)))))"
  by (auto simp add: tts_chain_def split: prod.splits)

lemma tts_chain_success:
  "fst (tts_chain env text lang f w) \<Longrightarrow> exists_with_content (snd (tts_chain env text lang f w)) f"
  by (simp add: tts_chain_unfold sapi_block_success espeak_block_success pyttsx3_block_success
      split: if_splits)

lemma trace_tts_chain_espeak:
  assumes "\<not> fst (sapi_block env text lang f w)"
  shows "\<exists>evs. trace (snd (tts_chain env text lang f w))
           = trace w @ [Trying SAPI, Invoke SAPI, Trying ESpeak] @ evs"
proof -
  let ?w1 = "snd (sapi_block env text lang f w)"
  let ?w2 = "snd (espeak_block env text lang f ?w1)"
  have e: "\<exists>evs. trace ?w2 = trace w @ [Trying SAPI, Invoke SAPI, Trying ESpeak] @ evs"
    using trace_espeak_block [of env "text" lang f "?w1"]
    by (auto simp add: trace_sapi_block)
  show ?thesis
  proof (cases "fst (espeak_block env text lang f ?w1)")
    case True
    with assms e show ?thesis by (simp add: tts_chain_unfold)
  next
    case False
    from e obtain evs where "trace ?w2 = trace w @ [Trying SAPI, Invoke SAPI, Trying ESpeak] @ evs"
      by blast
    with assms False show ?thesis
      by (simp add: tts_chain_unfold trace_pyttsx3_block)
  qed
qed

lemma trace_tts_chain_pyttsx3:
  assumes "\<not> fst (sapi_block env text lang f w)"
    and "\<not> fst (espeak_block env text lang f (snd (sapi_block env text lang f w)))"
  shows "\<exists>evs. trace (snd (tts_chain env text lang f w))
           = trace w @ evs @ [Trying Pyttsx3, Invoke Pyttsx3]"
proof -
  let ?w2 = "snd (espeak_block env text lang f (snd (sapi_block env text lang f w)))"
  have "\<exists>evs. trace ?w2 = trace w @ evs"
    using trace_espeak_block [of env "text" lang f "snd (sapi_block env text lang f w)"]
    by (auto simp add: trace_sapi_block)
  then obtain evs where "trace ?w2 = trace w @ evs" by blast
  with assms show ?thesis
    by (simp add: tts_chain_unfold trace_pyttsx3_block)
qed

text \<open>
  Claim C5: each backend of the chain sets \<^verbatim>\<open>tts_success\<close> only when the output file
  exists and is larger than 1000 bytes at the moment of the check, whatever the backend
  itself reported, and so does the chain as a whole; when the speech API has not
  succeeded eSpeak is tried next, and when eSpeak has not succeeded either pyttsx3 is
  tried.
\<close>

theorem backend_success_is_verified:
  "(fst (sapi_block env text lang f w)
      \<longrightarrow> exists_with_content (snd (sapi_block env text lang f w)) f)
   \<and> (fst (espeak_block env text lang f w)
      \<longrightarrow> exists_with_content (snd (espeak_block env text lang f w)) f)
   \<and> (fst (pyttsx3_block env text lang f w)
      \<longrightarrow> exists_with_content (snd (pyttsx3_block env text lang f w)) f)
   \<and> (fst (tts_chain env text lang f w)
      \<longrightarrow> exists_with_content (snd (tts_chain env text lang f w)) f)
   \<and> (\<not> fst (sapi_block env text lang f w)
      \<longrightarrow> Trying ESpeak \<in> set (events_of w (snd (tts_chain env text lang f w))))
   \<and> (\<not> fst (sapi_block env text lang f w)
       \<and> \<not> fst (espeak_block env text lang f (snd (sapi_block env text lang f w)))
      \<longrightarrow> Trying Pyttsx3 \<in> set (events_of w (snd (tts_chain env text lang f w))))"
proof (intro conjI impI)
  assume "\<not> fst (sapi_block env text lang f w)"
  then obtain evs where "trace (snd (tts_chain env text lang f w))
      = trace w @ [Trying SAPI, Invoke SAPI, Trying ESpeak] @ evs"
    using trace_tts_chain_espeak by blast
  then show "Trying ESpeak \<in> set (events_of w (snd (tts_chain env text lang f w)))"
    by (simp add: events_of_def)
next
  assume "\<not> fst (sapi_block env text lang f w)
       \<and> \<not> fst (espeak_block env text lang f (snd (sapi_block env text lang f w)))"
  then obtain evs where "trace (snd (tts_chain env text lang f w))
      = trace w @ evs @ [Trying Pyttsx3, Invoke Pyttsx3]"
    using trace_tts_chain_pyttsx3 by blast
  then show "Trying Pyttsx3 \<in> set (events_of w (snd (tts_chain env text lang f w)))"
    by (simp add: events_of_def)
qed (simp_all add: sapi_block_success espeak_block_success pyttsx3_block_success
      tts_chain_success)

lemma zero_byte_sapi:
  "sapi zero_byte_env ''hello'' ''en'' = (Written 0, None)
   \<and> \<not> fst (sapi_block zero_byte_env ''hello'' ''en'' ''/tmp/tmpa.wav'' w_wav)"
  by (simp add: zero_byte_env_def demo_env_def w_wav_def sapi_block_def ms_speak_def
      apply_effect_def exists_with_content_def emit_def)

lemma zero_byte_chain:
  "fst (tts_chain zero_byte_env ''hello'' ''en'' ''/tmp/tmpa.wav'' w_wav)"
  by (simp add: zero_byte_env_def demo_env_def w_wav_def tts_chain_def sapi_block_def
      ms_speak_def espeak_block_def NamedTemporaryFile_def os_unlink_def espeak_voice_def
      apply_effect_def exists_with_content_def emit_def)

theorem backend_success_is_verified_witness:
  "sapi zero_byte_env ''hello'' ''en'' = (Written 0, None)
   \<and> \<not> fst (sapi_block zero_byte_env ''hello'' ''en'' ''/tmp/tmpa.wav'' w_wav)
   \<and> Trying ESpeak \<in> set (events_of w_wav
         (snd (tts_chain zero_byte_env ''hello'' ''en'' ''/tmp/tmpa.wav'' w_wav)))
   \<and> fst (tts_chain zero_byte_env ''hello'' ''en'' ''/tmp/tmpa.wav'' w_wav)
   \<and> exists_with_content
         (snd (tts_chain zero_byte_env ''hello'' ''en'' ''/tmp/tmpa.wav'' w_wav)) ''/tmp/tmpa.wav''"
  using backend_success_is_verified [of zero_byte_env "''hello''" "''en''" "''/tmp/tmpa.wav''" w_wav]
    zero_byte_sapi zero_byte_chain
  by simp


text \<open>
  When the wav file could be created and each of the three backends fails in turn,
  \<^verbatim>\<open>speak_text\<close> goes on to the cleanup and the fallback \<^verbatim>\<open>print\<close>: it returns \<^verbatim>\<open>False\<close>
  when the print succeeds and raises the exception of the print otherwise.
\<close>

lemma speak_text_after_all_backends_fail:
  assumes "text \<noteq> []"
    and "NamedTemporaryFile env ''.wav'' (emit (Speaking lang text) w) = (Inr f, w1)"
    and "\<not> fst (sapi_block env text lang f w1)"
    and "\<not> fst (espeak_block env text lang f (snd (sapi_block env text lang f w1)))"
    and "\<not> fst (pyttsx3_block env text lang f
                 (snd (espeak_block env text lang f (snd (sapi_block env text lang f w1)))))"
  shows "speak_text env text lang w =
           (case print_speech env lang text
                   (cleanup env f (snd (tts_chain env text lang f w1))) of
              (Some e, w5) \<Rightarrow> (Inl e, w5)
            | (None, w5) \<Rightarrow> (Inr (Some False), w5))"
proof -
  have c: "\<not> fst (tts_chain env text lang f w1)"
    using assms(3-5) by (simp add: tts_chain_unfold)
  obtain s3 w2 where t: "tts_chain env text lang f w1 = (s3, w2)"
    by (cases "tts_chain env text lang f w1")
  with c have "\<not> s3" by simp
  with assms(1,2) t show ?thesis
    by (simp add: speak_text_def Let_def split: prod.splits option.splits)
qed

text \<open>
  Claim C7 at a failing input: on the machine of \<open>demo_env\<close> all three backends fail and
  standard output cannot encode Devanagari. \<^verbatim>\<open>speak_text\<close> called with the Hindi greeting
  raises the \<^verbatim>\<open>UnicodeEncodeError\<close> of the \<^verbatim>\<open>print\<close> at line 327, which is outside every
  \<^verbatim>\<open>try\<close>, where the claim has it return a degraded outcome; the route, given that
  greeting as the translation of the recognised \<^verbatim>\<open>"hello"\<close>, then answers with an error
  and without the translated text.
\<close>

theorem speak_text_fallback_print_raises:
  "fst (speak_text demo_env namaste ''hi'' w0)
     = Inl (Exception '''ascii' codec can't encode characters: ordinal not in range(128)'')
   \<and> map_option fst (translate devanagari_env english_to_hindi w0)
     = Some \<lparr>error = Some
                (''Translation failed: ''
                 @ '''ascii' codec can't encode characters: ordinal not in range(128)''),
              recognized = Some ''hello'', translated = None,
              can_translate = Some False, missing_models = None\<rparr>"
  by (simp add: translate_def route_body_def subscript_def english_to_hindi_def LANGUAGES_def
      MODEL_PATHS_def devanagari_env_def demo_env_def recognize_speech_def namaste_def
      translate_and_speak_def translate_text_def translate_body_def run_translation_def
      lookup_lang_def no_response_def w0_def ascii_stdout_def print_speech_def
      speak_text_def tts_chain_def sapi_block_def playback_def
      ms_speak_def espeak_block_def pyttsx3_block_def NamedTemporaryFile_def os_unlink_def
      cleanup_def espeak_voice_def apply_effect_def exists_with_content_def emit_def)

text \<open>
  Claim C1 at a failing input: on the machine of \<open>demo_env\<close> the speech API is not
  available and \<^verbatim>\<open>subprocess.run\<close> raises because eSpeak is not installed at the
  configured path. \<^verbatim>\<open>speak_text("hello", "en")\<close> then returns \<^verbatim>\<open>False\<close>; the wav file
  has been removed, but the text file written for eSpeak at lines 228-231 is still on
  disk: the \<^verbatim>\<open>os.unlink(text_path)\<close> of line 255 is skipped by the exception.
\<close>

theorem speak_text_leaks_text_file:
  "fst (speak_text demo_env ''hello'' ''en'' w0) = Inr (Some False)
   \<and> dom (files w0) = {}
   \<and> dom (files (snd (speak_text demo_env ''hello'' ''en'' w0))) = {''/tmp/tmpa''}
   \<and> files (snd (speak_text demo_env ''hello'' ''en'' w0)) ''/tmp/tmpa'' = Some 5"
  by (simp add: speak_text_def demo_env_def w0_def tts_chain_def sapi_block_def
      ms_speak_def espeak_block_def pyttsx3_block_def NamedTemporaryFile_def os_unlink_def
      print_speech_def ascii_stdout_def cleanup_def espeak_voice_def apply_effect_def exists_with_content_def emit_def)

section \<open>Properties of the /translate route\<close>



lemma english_to_hindi_resolves:
  "subscript english_to_hindi ''source'' = Inr ''English''"
  "subscript english_to_hindi ''target'' = Inr ''Hindi''"
  "subscript LANGUAGES ''English'' = Inr ''en''"
  "subscript LANGUAGES ''Hindi'' = Inr ''hi''"
  "subscript MODEL_PATHS ''en'' = Inr ''models/vosk-model-small-en-us-0.15''"
  by (simp_all add: subscript_def english_to_hindi_def LANGUAGES_def MODEL_PATHS_def)

text \<open>
  Claim C2, as the code has it: for a request that names two configured languages, audio
  capture starts only after the speech model of the source language has been found and
  loaded (when either check fails the route answers with an error and no stream has been
  opened). The translation models are checked after capture: when one is missing the
  route answers with the recognised text and the list of exactly the missing sides, and
  nothing but the model load and the capture has happened (no translation, no speech).
\<close>

theorem capture_follows_model_check:
  assumes "subscript data ''source'' = Inr source"
    and "subscript data ''target'' = Inr target"
    and "subscript LANGUAGES source = Inr source_code"
    and "subscript LANGUAGES target = Inr target_code"
    and "subscript MODEL_PATHS source_code = Inr model_path"
  shows "(\<not> model_exists env model_path \<longrightarrow>
            translate env data w =
              Some (no_response\<lparr>error := Some (''Model for '' @ source @ '' not found at ''
                                                 @ model_path @ ''!'')\<rparr>, w))
       \<and> (model_exists env model_path \<and> vosk_model env model_path = Some e \<longrightarrow>
            translate env data w =
              Some (no_response\<lparr>error := Some (''Failed to create model: '' @ str_exn e)\<rparr>,
                    emit (LoadModel model_path) w))
       \<and> (model_exists env model_path \<and> vosk_model env model_path = None
           \<and> stream_error env = None \<and> listen (audio env) = Some recognized_text
           \<and> \<not> (source_code \<in> set (lang_dict env) \<and> target_code \<in> set (lang_dict env)) \<longrightarrow>
            translate env data w =
              Some (missing_response env source source_code target target_code recognized_text,
                    emit OpenStream (emit (LoadModel model_path) w))
            \<and> missing_models
                 (missing_response env source source_code target target_code recognized_text)
               = Some ((if source_code \<notin> set (lang_dict env)
                        then [source @ '' ('' @ source_code @ '')''] else [])
                     @ (if target_code \<notin> set (lang_dict env)
                        then [target @ '' ('' @ target_code @ '')''] else [])))"
proof (intro conjI impI)
  assume "\<not> model_exists env model_path"
  with assms show "translate env data w =
      Some (no_response\<lparr>error := Some (''Model for '' @ source @ '' not found at ''
                                         @ model_path @ ''!'')\<rparr>, w)"
    by (simp add: translate_def route_body_def)
next
  assume "model_exists env model_path \<and> vosk_model env model_path = Some e"
  with assms show "translate env data w =
      Some (no_response\<lparr>error := Some (''Failed to create model: '' @ str_exn e)\<rparr>,
            emit (LoadModel model_path) w)"
    by (simp add: translate_def route_body_def)
next
  assume h: "model_exists env model_path \<and> vosk_model env model_path = None
           \<and> stream_error env = None \<and> listen (audio env) = Some recognized_text
           \<and> \<not> (source_code \<in> set (lang_dict env) \<and> target_code \<in> set (lang_dict env))"
  then have r: "recognize_speech env (emit (LoadModel model_path) w)
      = Some (Inr recognized_text, emit OpenStream (emit (LoadModel model_path) w))"
    by (simp add: recognize_speech_def)
  from h have m: "source_code \<in> set (lang_dict env) \<longrightarrow> target_code \<notin> set (lang_dict env)"
    by simp
  from assms h r m show "translate env data w =
      Some (missing_response env source source_code target target_code recognized_text,
            emit OpenStream (emit (LoadModel model_path) w))"
    by (auto simp add: translate_def route_body_def)
  show "missing_models
          (missing_response env source source_code target target_code recognized_text)
        = Some ((if source_code \<notin> set (lang_dict env)
                 then [source @ '' ('' @ source_code @ '')''] else [])
              @ (if target_code \<notin> set (lang_dict env)
                 then [target @ '' ('' @ target_code @ '')''] else []))"
    by (simp add: missing_response_def Let_def)
qed

theorem capture_follows_model_check_witness:
  "translate hindi_missing_env english_to_hindi w0 =
     Some (missing_response hindi_missing_env ''English'' ''en'' ''Hindi'' ''hi'' ''hello'',
           emit OpenStream (emit (LoadModel ''models/vosk-model-small-en-us-0.15'') w0))
   \<and> missing_models (missing_response hindi_missing_env ''English'' ''en'' ''Hindi'' ''hi'' ''hello'')
       = Some [''Hindi (hi)'']
   \<and> translate (hindi_missing_env\<lparr>model_exists := (\<lambda>path. False)\<rparr>) english_to_hindi w0 =
       Some (no_response\<lparr>error := Some
          ''Model for English not found at models/vosk-model-small-en-us-0.15!''\<rparr>, w0)
   \<and> translate (hindi_missing_env\<lparr>vosk_model := (\<lambda>path. Some (Exception ''bad model''))\<rparr>)
         english_to_hindi w0 =
       Some (no_response\<lparr>error := Some ''Failed to create model: bad model''\<rparr>,
             emit (LoadModel ''models/vosk-model-small-en-us-0.15'') w0)"
proof -
  have a: "model_exists hindi_missing_env ''models/vosk-model-small-en-us-0.15''"
    "vosk_model hindi_missing_env ''models/vosk-model-small-en-us-0.15'' = None"
    "stream_error hindi_missing_env = None"
    "listen (audio hindi_missing_env) = Some ''hello''"
    "lang_dict hindi_missing_env = [''en'']"
    by (simp_all add: hindi_missing_env_def demo_env_def)
  have b: "\<not> model_exists (hindi_missing_env\<lparr>model_exists := (\<lambda>path. False)\<rparr>)
               ''models/vosk-model-small-en-us-0.15''"
    by simp
  have c: "model_exists (hindi_missing_env\<lparr>vosk_model := (\<lambda>path. Some (Exception ''bad model''))\<rparr>)
               ''models/vosk-model-small-en-us-0.15''
           \<and> vosk_model (hindi_missing_env\<lparr>vosk_model := (\<lambda>path. Some (Exception ''bad model''))\<rparr>)
               ''models/vosk-model-small-en-us-0.15'' = Some (Exception ''bad model'')"
    using a(1) by simp
  note t = capture_follows_model_check [OF english_to_hindi_resolves]
  show ?thesis
    using t [of hindi_missing_env w0 "Exception ''bad model''" "''hello''"]
      t [of "hindi_missing_env\<lparr>model_exists := (\<lambda>path. False)\<rparr>" w0 "Exception ''bad model''" "''hello''"]
      t [of "hindi_missing_env\<lparr>vosk_model := (\<lambda>path. Some (Exception ''bad model''))\<rparr>"
           w0 "Exception ''bad model''" "''hello''"]
      a b c
    by simp
qed

text \<open>
  Claim C2 as stated (no audio is captured when a translation model is missing) fails:
  with the Hindi model missing, a request from English to Hindi opens the stream and
  returns the recognised text along with the missing model.
\<close>

theorem capture_before_translation_check:
  "''hi'' \<notin> set (lang_dict hindi_missing_env)
   \<and> translate hindi_missing_env english_to_hindi w0 =
       Some (\<lparr>error = Some ''Missing translation models for: Hindi (hi)'',
              recognized = Some ''hello'', translated = None,
              can_translate = Some False, missing_models = Some [''Hindi (hi)'']\<rparr>,
             \<lparr>files = Map.empty,
              trace = [LoadModel ''models/vosk-model-small-en-us-0.15'', OpenStream]\<rparr>)"
  by (simp add: translate_def route_body_def subscript_def english_to_hindi_def LANGUAGES_def
      MODEL_PATHS_def hindi_missing_env_def demo_env_def recognize_speech_def
      missing_response_def emit_def w0_def)




end
